theory Spec2Isabelle
  imports Complex_Main "HOL-Library.Monad_Syntax"
begin

section \<open>Values\<close>

text \<open>
  The request body is a JSON object and the encoder works on a one-row pandas DataFrame.
  Both hold dynamically typed scalars, modelled by \<open>pyval\<close>. Python floats are modelled
  as real numbers, without the rounding of binary64: what is proved of a float is a bound
  or a comparison that rounding does not change, never the digits the program prints.
  JSON arrays and objects are left out of \<open>pyval\<close>; as field values they compare unequal
  to every option of every validator.
\<close>

datatype pyval = PNone | PBool bool | PInt int | PFloat real | PStr string

text \<open>The numeric value Python gives to a bool, an int or a float; nothing else is a number.\<close>

fun num_of :: "pyval \<Rightarrow> real option" where
  "num_of (PBool b) = Some (if b then 1 else 0)"
| "num_of (PInt i) = Some (of_int i)"
| "num_of (PFloat x) = Some x"
| "num_of PNone = None"
| "num_of (PStr s) = None"

text \<open>
  Python's \<open>==\<close> on scalars: numbers (bools included) compare by value, so
  \<open>True == 1\<close> and \<open>1.0 == 1\<close>; a number never equals a string or \<open>None\<close>.
\<close>

definition py_eq :: "pyval \<Rightarrow> pyval \<Rightarrow> bool" where
  "py_eq a b =
     (case (num_of a, num_of b) of
        (Some x, Some y) \<Rightarrow> x = y
      | (None, None) \<Rightarrow> a = b
      | _ \<Rightarrow> False)"

text \<open>\<open>v in [o1, o2, ...]\<close>: some element of the list equals \<open>v\<close>.\<close>

definition py_in :: "pyval \<Rightarrow> pyval list \<Rightarrow> bool" where
  "py_in v opts = list_ex (py_eq v) opts"

text \<open>\<open>str\<close> of a non-negative and of an arbitrary Python int.\<close>

definition digit_char :: "nat \<Rightarrow> char" where
  "digit_char d =
     (if d = 0 then CHR ''0'' else if d = 1 then CHR ''1'' else if d = 2 then CHR ''2''
      else if d = 3 then CHR ''3'' else if d = 4 then CHR ''4'' else if d = 5 then CHR ''5''
      else if d = 6 then CHR ''6'' else if d = 7 then CHR ''7'' else if d = 8 then CHR ''8''
      else CHR ''9'')"

fun show_nat :: "nat \<Rightarrow> string" where
  "show_nat n =
     (if n < 10 then [digit_char n]
      else show_nat (n div 10) @ [digit_char (n mod 10)])"

declare show_nat.simps [simp del]

definition show_int :: "int \<Rightarrow> string" where
  "show_int i = (if i < 0 then CHR ''-'' # show_nat (nat (- i)) else show_nat (nat i))"

text \<open>
  \<open>repr\<close> of an option value, as the f-string of \<open>validate_input\<close> prints the option
  lists. The options are ints and strings without quotes or escapes; \<open>repr\<close> of such a
  string is the string between single quotes. A float has no \<open>repr\<close> here.
\<close>

fun py_repr :: "pyval \<Rightarrow> string option" where
  "py_repr PNone = Some ''None''"
| "py_repr (PBool b) = Some (if b then ''True'' else ''False'')"
| "py_repr (PInt i) = Some (show_int i)"
| "py_repr (PStr s) = Some (CHR 0x27 # s @ [CHR 0x27])"
| "py_repr (PFloat x) = None"

fun join_comma :: "string list \<Rightarrow> string" where
  "join_comma [] = []"
| "join_comma [s] = s"
| "join_comma (s # t # ss) = s @ '', '' @ join_comma (t # ss)"

definition repr_list :: "pyval list \<Rightarrow> string" where
  "repr_list vs = ''['' @ join_comma (map (\<lambda>v. the (py_repr v)) vs) @ '']''"

section \<open>Validator\<close>

text \<open>One entry of \<open>INPUT_VALIDATORS\<close>.\<close>

record validator =
  options :: "pyval list"
  required :: bool
  error :: string

definition INPUT_VALIDATORS :: "(string \<times> validator) list" where
  "INPUT_VALIDATORS =
     [(''road_type'',
        \<lparr>options = [PInt 1, PInt 2, PInt 3, PInt 6], required = True,
         error = ''Please select a valid road type (1: Residential, 2: Suburban, 3: Rural, 6: Urban)''\<rparr>),
      (''weather_conditions'',
        \<lparr>options = [PStr ''Fine'', PStr ''Rain'', PStr ''Snow'', PStr ''Fog''], required = True,
         error = ''Please select valid weather conditions''\<rparr>),
      (''speed_limit'',
        \<lparr>options = [PInt 20, PInt 30, PInt 40, PInt 50, PInt 60, PInt 70], required = True,
         error = ''Please select a valid speed limit''\<rparr>),
      (''time_of_day'',
        \<lparr>options = [PStr ''Morning'', PStr ''Afternoon'', PStr ''Evening'', PStr ''Night''],
         required = True,
         error = ''Please select a valid time of day''\<rparr>),
      (''junction_detail'',
        \<lparr>options = [PStr ''T Junction'', PStr ''Crossroads'', PStr ''Roundabout'',
                    PStr ''Not at junction''],
         required = True,
         error = ''Please select a valid junction type''\<rparr>)]"

definition RISK_THRESHOLDS_high :: real where
  "RISK_THRESHOLDS_high = 0.70"

text \<open>
  The message of the second branch of \<open>validate_input\<close>:
  \<open>f"Invalid value for {field}. Options are: {rules['options']}"\<close>.
\<close>

definition invalid_value_msg :: "string \<Rightarrow> pyval list \<Rightarrow> string" where
  "invalid_value_msg field opts =
     ''Invalid value for '' @ field @ ''. Options are: '' @ repr_list opts"

text \<open>
  One iteration of the loop of \<open>validate_input\<close>. The dict \<open>errors\<close> is an association
  list in insertion order; the fields of \<open>INPUT_VALIDATORS\<close> are distinct, so every
  assignment \<open>errors[field] = ...\<close> adds a new key at the end.
\<close>

definition validate_field ::
  "(string \<rightharpoonup> pyval) \<Rightarrow> string \<times> validator \<Rightarrow> (string \<times> string) list \<Rightarrow> (string \<times> string) list"
where
  "validate_field data fr errors =
     (let field = fst fr; rules = snd fr in
      if required rules \<and> data field = None then errors @ [(field, error rules)]
      else if data field \<noteq> None \<and> \<not> py_in (the (data field)) (options rules)
        then errors @ [(field, invalid_value_msg field (options rules))]
      else errors)"

definition validate_input :: "(string \<rightharpoonup> pyval) \<Rightarrow> (string \<times> string) list" where
  "validate_input data = fold (validate_field data) INPUT_VALIDATORS []"

section \<open>Requests\<close>

text \<open>
  Past validation the handler reads the five fields of the request dict by key. A request
  whose fields have the types of the data model (an int for \<open>road_type\<close> and
  \<open>speed_limit\<close>, a string for the others) is a record; \<open>request_dict\<close> is the dict it
  stands for. Keys beyond the five never reach the result of any function below.
\<close>

record request =
  road_type :: int
  weather_conditions :: string
  speed_limit :: int
  time_of_day :: string
  junction_detail :: string

definition request_dict :: "request \<Rightarrow> (string \<rightharpoonup> pyval)" where
  "request_dict data =
     [''road_type'' \<mapsto> PInt (road_type data),
      ''weather_conditions'' \<mapsto> PStr (weather_conditions data),
      ''speed_limit'' \<mapsto> PInt (speed_limit data),
      ''time_of_day'' \<mapsto> PStr (time_of_day data),
      ''junction_detail'' \<mapsto> PStr (junction_detail data)]"

text \<open>The invariant of a valid request: every field within its enumerated set.\<close>

definition valid_request :: "request \<Rightarrow> bool" where
  "valid_request data \<longleftrightarrow>
     road_type data \<in> set [1, 2, 3, 6] \<and>
     weather_conditions data \<in> set [''Fine'', ''Rain'', ''Snow'', ''Fog''] \<and>
     speed_limit data \<in> set [20, 30, 40, 50, 60, 70] \<and>
     time_of_day data \<in> set [''Morning'', ''Afternoon'', ''Evening'', ''Night''] \<and>
     junction_detail data \<in> set [''T Junction'', ''Crossroads'', ''Roundabout'', ''Not at junction'']"

section \<open>Risk factors\<close>

definition road_type_desc :: "int \<rightharpoonup> string" where
  "road_type_desc =
     [6 \<mapsto> ''Urban area with high traffic'',
      3 \<mapsto> ''Rural road with potential hazards'',
      2 \<mapsto> ''Suburban area with moderate traffic'',
      1 \<mapsto> ''Residential area with lower traffic'']"

definition calculate_risk_factors :: "request \<Rightarrow> string list" where
  "calculate_risk_factors data =
     (let risk_factors = [];
          risk_factors =
            (if time_of_day data \<in> set [''Night'', ''Evening'']
             then risk_factors @ [''Limited visibility during night/evening hours'']
             else risk_factors);
          risk_factors =
            (if weather_conditions data \<noteq> ''Fine''
             then risk_factors @ [''Adverse weather conditions ('' @ weather_conditions data @ '')'']
             else risk_factors);
          risk_factors =
            (if speed_limit data > 40 then risk_factors @ [''High speed zone''] else risk_factors);
          risk_factors =
            (if junction_detail data \<noteq> ''Not at junction''
             then risk_factors @ [''Complex junction type ('' @ junction_detail data @ '')'']
             else risk_factors);
          risk_factors =
            (case road_type_desc (road_type data) of
               None \<Rightarrow> risk_factors
             | Some desc \<Rightarrow>
                 if road_type data \<in> set [6, 3] then risk_factors @ [desc] else risk_factors)
      in risk_factors)"

section \<open>Recommendations\<close>

definition generate_recommendations :: "request \<Rightarrow> string \<Rightarrow> string list \<Rightarrow> string list" where
  "generate_recommendations data risk_level risk_factors =
     (let recommendations = [];
          recommendations =
            (if risk_level = ''High Risk'' then
               (let recommendations =
                      (if speed_limit data > 40
                       then recommendations @ [''Consider reducing speed limit in this area'']
                       else recommendations);
                    recommendations =
                      (if junction_detail data \<noteq> ''Not at junction''
                       then recommendations @ [''Install traffic monitoring cameras at the junction'']
                       else recommendations);
                    recommendations =
                      (if time_of_day data \<in> set [''Night'', ''Evening'']
                       then recommendations @ [''Improve street lighting conditions'']
                       else recommendations);
                    recommendations =
                      (if weather_conditions data \<noteq> ''Fine''
                       then recommendations @
                            [''Install weather warning signs for '' @ weather_conditions data @
                             '' conditions'']
                       else recommendations);
                    recommendations =
                      (if length risk_factors > 0
                       then recommendations @ [''Increase police patrols in the area'']
                       else recommendations)
                in recommendations)
             else
               (let recommendations =
                      (if junction_detail data \<noteq> ''Not at junction''
                       then recommendations @ [''Consider additional signage at the junction'']
                       else recommendations);
                    recommendations =
                      (if weather_conditions data \<noteq> ''Fine''
                       then recommendations @ [''Ensure regular road maintenance'']
                       else recommendations);
                    recommendations =
                      (if time_of_day data \<in> set [''Night'', ''Evening'']
                       then recommendations @ [''Consider enhanced road markings'']
                       else recommendations);
                    recommendations =
                      (if length risk_factors > 0
                       then recommendations @
                            [''Monitor conditions and maintain current safety measures'']
                       else recommendations @ [''Continue regular maintenance and monitoring'']);
                    recommendations =
                      (if road_type data = 1
                       then recommendations @ [''Maintain residential area safety features'']
                       else recommendations);
                    recommendations =
                      (if speed_limit data \<le> 30
                       then recommendations @ [''Current speed restrictions are appropriate'']
                       else recommendations)
                in recommendations))
      in if recommendations \<noteq> [] then recommendations
         else [''No specific recommendations needed at this time''])"

section \<open>Feature encoder\<close>

text \<open>
  The one-row DataFrame is a map from column names to the value of the row. Assigning to a
  column that exists replaces it, as pandas does. In the option monad \<open>None\<close> stands for
  an exception (a missing column) or for an operand this development does not model (a
  string or \<open>None\<close> cell in arithmetic, a float in an f-string); \<open>preprocess_input_total\<close>
  below shows that no request reaches such a case.
\<close>

type_synonym frame = "string \<rightharpoonup> pyval"

definition dict_get :: "('k \<rightharpoonup> 'v) \<Rightarrow> 'k \<Rightarrow> 'v \<Rightarrow> 'v" where
  "dict_get m k dflt = (case m k of Some v \<Rightarrow> v | None \<Rightarrow> dflt)"

text \<open>The three code tables of \<open>preprocess_input\<close>; their keys are strings.\<close>

definition weather_map :: "pyval \<rightharpoonup> int" where
  "weather_map = [PStr ''Fine'' \<mapsto> 1, PStr ''Rain'' \<mapsto> 2, PStr ''Snow'' \<mapsto> 3, PStr ''Fog'' \<mapsto> 4]"

definition time_to_light :: "pyval \<rightharpoonup> int" where
  "time_to_light =
     [PStr ''Morning'' \<mapsto> 1, PStr ''Afternoon'' \<mapsto> 1, PStr ''Evening'' \<mapsto> 4, PStr ''Night'' \<mapsto> 4]"

definition junction_map :: "pyval \<rightharpoonup> int" where
  "junction_map =
     [PStr ''Not at junction'' \<mapsto> 0, PStr ''T Junction'' \<mapsto> 1, PStr ''Crossroads'' \<mapsto> 2,
      PStr ''Roundabout'' \<mapsto> 3]"

text \<open>A cell inside an f-string.\<close>

fun py_str :: "pyval \<Rightarrow> string option" where
  "py_str (PStr s) = Some s"
| "py_str (PInt i) = Some (show_int i)"
| "py_str (PBool b) = Some (if b then ''True'' else ''False'')"
| "py_str PNone = Some ''None''"
| "py_str (PFloat x) = None"

text \<open>\<open>.astype(float)\<close> of a numeric cell, and \<open>cell > c\<close> for a number \<open>c\<close>.\<close>

definition astype_float :: "pyval \<Rightarrow> real option" where
  "astype_float v = num_of v"

definition py_gt :: "pyval \<Rightarrow> real \<Rightarrow> bool option" where
  "py_gt v c = map_option (\<lambda>x. x > c) (num_of v)"

text \<open>Sum and product of two columns holding ints or floats.\<close>

fun col_add :: "pyval \<Rightarrow> pyval \<Rightarrow> pyval option" where
  "col_add (PInt a) (PInt b) = Some (PInt (a + b))"
| "col_add (PInt a) (PFloat y) = Some (PFloat (of_int a + y))"
| "col_add (PFloat x) (PInt b) = Some (PFloat (x + of_int b))"
| "col_add (PFloat x) (PFloat y) = Some (PFloat (x + y))"
| "col_add _ _ = None"

fun col_mul :: "pyval \<Rightarrow> pyval \<Rightarrow> pyval option" where
  "col_mul (PInt a) (PInt b) = Some (PInt (a * b))"
| "col_mul (PInt a) (PFloat y) = Some (PFloat (of_int a * y))"
| "col_mul (PFloat x) (PInt b) = Some (PFloat (x * of_int b))"
| "col_mul (PFloat x) (PFloat y) = Some (PFloat (x * y))"
| "col_mul _ _ = None"

text \<open>\<open>df[feature_names]\<close>: the named columns in the order of the names, KeyError if one is missing.\<close>

fun select_cols :: "frame \<Rightarrow> string list \<Rightarrow> (string \<times> pyval) list option" where
  "select_cols df [] = Some []"
| "select_cols df (f # fs) =
     (case df f of
        None \<Rightarrow> None
      | Some v \<Rightarrow> map_option ((#) (f, v)) (select_cols df fs))"

text \<open>
  An assignment \<open>df[col] = rhs\<close>, where \<open>rhs\<close> reads the frame, and the pair of
  statements \<open>code = ...; df[f'{prefix}{code}'] = 1\<close> that sets a one-hot column.
\<close>

definition assign :: "string \<Rightarrow> (frame \<Rightarrow> pyval option) \<Rightarrow> frame \<Rightarrow> frame option" where
  "assign col rhs df = map_option (\<lambda>v. df(col \<mapsto> v)) (rhs df)"

definition one_hot :: "string \<Rightarrow> (frame \<Rightarrow> string option) \<Rightarrow> frame \<Rightarrow> frame option" where
  "one_hot prefix code df = map_option (\<lambda>c. df(prefix @ c \<mapsto> PInt 1)) (code df)"

text \<open>
  \<open>preprocess_input\<close>, statement by statement. \<open>feature_names\<close>, a global of the module
  read from the model artifact, is a parameter. The loop over \<open>feature_names\<close> assigns 0
  to every column of the schema, also to one that came with the request.
\<close>

definition preprocess_input :: "string list \<Rightarrow> request \<Rightarrow> (string \<times> pyval) list option" where
  "preprocess_input feature_names data = do {
     let df = request_dict data;
     let df = fold (\<lambda>feature df. df(feature \<mapsto> PInt 0)) feature_names df;
     df \<leftarrow> one_hot ''road_type_'' (\<lambda>df. do { rt \<leftarrow> df ''road_type''; py_str rt }) df;
     df \<leftarrow> one_hot ''weather_conditions_''
            (\<lambda>df. do { w \<leftarrow> df ''weather_conditions''; Some (show_int (dict_get weather_map w 1)) }) df;
     df \<leftarrow> one_hot ''light_conditions_''
            (\<lambda>df. do { t \<leftarrow> df ''time_of_day''; Some (show_int (dict_get time_to_light t 1)) }) df;
     df \<leftarrow> one_hot ''junction_detail_''
            (\<lambda>df. do { j \<leftarrow> df ''junction_detail''; Some (show_int (dict_get junction_map j 0)) }) df;
     df \<leftarrow> assign ''speed_limit''
            (\<lambda>df. do { s \<leftarrow> df ''speed_limit''; x \<leftarrow> astype_float s; Some (PFloat (x / 70.0)) }) df;
     df \<leftarrow> assign ''number_of_vehicles'' (\<lambda>df. Some (PInt 1)) df;
     df \<leftarrow> assign ''number_of_casualties'' (\<lambda>df. Some (PInt 0)) df;
     df \<leftarrow> assign ''casualty_rate'' (\<lambda>df. Some (PInt 0)) df;
     df \<leftarrow> assign ''weather_risk''
            (\<lambda>df. do { w \<leftarrow> df ''weather_conditions'';
                       Some (PInt (if \<not> py_eq w (PStr ''Fine'') then 1 else 0)) }) df;
     df \<leftarrow> assign ''surface_risk''
            (\<lambda>df. do { w \<leftarrow> df ''weather_conditions'';
                       Some (PInt (if py_in w [PStr ''Rain'', PStr ''Snow''] then 1 else 0)) }) df;
     df \<leftarrow> assign ''combined_risk''
            (\<lambda>df. do { wr \<leftarrow> df ''weather_risk''; sr \<leftarrow> df ''surface_risk''; col_add wr sr }) df;
     df \<leftarrow> assign ''is_night''
            (\<lambda>df. do { t \<leftarrow> df ''time_of_day'';
                       Some (PInt (if py_in t [PStr ''Night'', PStr ''Evening''] then 1 else 0)) }) df;
     df \<leftarrow> assign ''is_rush_hour''
            (\<lambda>df. do { t \<leftarrow> df ''time_of_day'';
                       Some (PInt (if py_in t [PStr ''Morning'', PStr ''Evening''] then 1 else 0)) }) df;
     df \<leftarrow> assign ''is_weekend'' (\<lambda>df. Some (PInt 0)) df;
     df \<leftarrow> assign ''high_speed''
            (\<lambda>df. do { s \<leftarrow> df ''speed_limit''; hs \<leftarrow> py_gt s 40;
                       Some (PInt (if hs then 1 else 0)) }) df;
     df \<leftarrow> assign ''night_speed_risk''
            (\<lambda>df. do { n \<leftarrow> df ''is_night''; h \<leftarrow> df ''high_speed''; col_mul n h }) df;
     df \<leftarrow> assign ''weather_speed_risk''
            (\<lambda>df. do { wr \<leftarrow> df ''weather_risk''; h \<leftarrow> df ''high_speed''; col_mul wr h }) df;
     select_cols df feature_names
   }"

section \<open>Calibration and classification\<close>

text \<open>
  \<open>adjust_probability\<close> over the reals. The program computes in binary64, where a
  remapped value that rounds to exactly 0.4 takes the second branch of the test
  \<open>final_prob < 0.4\<close> while the real value, just below 0.4, takes the first: at such an
  input the program's result and the real one differ by about \<open>base_diff * 0.03\<close>. The
  definition therefore supports bounds on the result, which hold on either branch, and not
  its exact value.

  At \<open>prob = 2\<close> the division is by zero: on the numpy float that \<open>predict\<close> passes the
  quotient is infinite, so is every value after it, and the final clamp returns 1. The
  fractional power of a negative base is no real number (\<open>nan\<close> on a numpy float, a
  complex number on a Python float): \<open>None\<close>. Neither occurs for a probability in
  \<open>[0, 1]\<close>.
\<close>

definition adjust_probability :: "real \<Rightarrow> real option" where
  "adjust_probability prob =
     (if prob * 0.5 + (1 - prob) = 0 then Some 1
      else
        let adjusted = (prob * 0.5) / (prob * 0.5 + (1 - prob)) in
        if adjusted \<le> 0.5 \<and> adjusted * 2 < 0 then None
        else
          let final_prob =
                (if adjusted > 0.5 then
                   (let normalized = (adjusted - 0.5) * 2;
                        transformed = normalized ^ 5
                    in 0.2 + (transformed * 0.7))
                 else
                   (let normalized = adjusted * 2
                    in 0.2 * (normalized powr 0.33)));
              base_diff = \<bar>prob - 0.5\<bar>;
              final_prob =
                (if final_prob < 0.4 then final_prob + base_diff * 0.02
                 else final_prob + base_diff * 0.05)
          in Some (min (max final_prob 0) 1))"

text \<open>The base risk score of \<open>predict\<close>: five increments of 0.1.\<close>

definition base_risk_score :: "request \<Rightarrow> real" where
  "base_risk_score data =
     (let base_risk_score = 0;
          base_risk_score =
            (if speed_limit data > 40 then base_risk_score + 0.1 else base_risk_score);
          base_risk_score =
            (if time_of_day data \<in> set [''Night'', ''Evening'']
             then base_risk_score + 0.1 else base_risk_score);
          base_risk_score =
            (if weather_conditions data \<noteq> ''Fine'' then base_risk_score + 0.1 else base_risk_score);
          base_risk_score =
            (if junction_detail data \<noteq> ''Not at junction''
             then base_risk_score + 0.1 else base_risk_score);
          base_risk_score =
            (if road_type data \<in> set [6, 3] then base_risk_score + 0.1 else base_risk_score)
      in base_risk_score)"

definition final_probability :: "real \<Rightarrow> real \<Rightarrow> real" where
  "final_probability adjusted_probability base = (adjusted_probability * 0.7) + (base * 0.3)"

definition risk_level_of :: "real \<Rightarrow> string" where
  "risk_level_of p = (if p > RISK_THRESHOLDS_high then ''High Risk'' else ''Not High Risk'')"

text \<open>
  The body of \<open>predict\<close> once validation has passed. The classifier is the parameter
  \<open>predict_proba\<close>; the two probabilities are kept as numbers, their rendering as
  percentages is left out.
\<close>

record prediction =
  risk_level :: string
  probability :: real
  raw_probability :: real
  risk_factors :: "string list"
  recommendations :: "string list"

definition predict ::
  "string list \<Rightarrow> ((string \<times> pyval) list \<Rightarrow> real) \<Rightarrow> request \<Rightarrow> prediction option"
where
  "predict feature_names predict_proba data = do {
     processed_data \<leftarrow> preprocess_input feature_names data;
     let raw = predict_proba processed_data;
     let base = base_risk_score data;
     adjusted_probability \<leftarrow> adjust_probability raw;
     let final = final_probability adjusted_probability base;
     let level = risk_level_of final;
     let factors = calculate_risk_factors data;
     let recs = generate_recommendations data level factors;
     Some \<lparr>risk_level = level, probability = final, raw_probability = raw,
           risk_factors = factors, recommendations = recs\<rparr>
   }"

section \<open>Reference definitions\<close>

text \<open>
  The rule tables and formulas as the specification words them, for comparison with the
  functions above. \<open>fired\<close> keeps, in order, the effects of the rules whose condition holds.
\<close>

definition fired :: "(bool \<times> string) list \<Rightarrow> string list" where
  "fired rules = map snd (filter fst rules)"

definition count_true :: "bool list \<Rightarrow> nat" where
  "count_true bs = length (filter id bs)"

text \<open>
  What one validator contributes to the errors: the fixed message for an absent required
  field, the generated message for a value that \<open>in\<close> does not find among the options.
\<close>

definition field_errors :: "(string \<rightharpoonup> pyval) \<Rightarrow> string \<times> validator \<Rightarrow> (string \<times> string) list" where
  "field_errors data fr =
     (case data (fst fr) of
        None \<Rightarrow> if required (snd fr) then [(fst fr, error (snd fr))] else []
      | Some v \<Rightarrow>
          if py_in v (options (snd fr)) then []
          else [(fst fr, invalid_value_msg (fst fr) (options (snd fr)))])"

definition field_ok :: "(string \<rightharpoonup> pyval) \<Rightarrow> string \<times> validator \<Rightarrow> bool" where
  "field_ok data fr =
     (case data (fst fr) of None \<Rightarrow> False | Some v \<Rightarrow> py_in v (options (snd fr)))"

text \<open>The five triggers of the base risk score.\<close>

definition base_triggers :: "request \<Rightarrow> bool list" where
  "base_triggers data =
     [speed_limit data > 40,
      time_of_day data \<in> {''Night'', ''Evening''},
      weather_conditions data \<noteq> ''Fine'',
      junction_detail data \<noteq> ''Not at junction'',
      road_type data \<in> {6, 3}]"

text \<open>The five rules of the risk-factor analyzer, in their order.\<close>

definition risk_rules :: "request \<Rightarrow> (bool \<times> string) list" where
  "risk_rules data =
     [(time_of_day data \<in> {''Night'', ''Evening''},
         ''Limited visibility during night/evening hours''),
      (weather_conditions data \<noteq> ''Fine'',
         ''Adverse weather conditions ('' @ weather_conditions data @ '')''),
      (speed_limit data > 40, ''High speed zone''),
      (junction_detail data \<noteq> ''Not at junction'',
         ''Complex junction type ('' @ junction_detail data @ '')''),
      (road_type data \<in> {6, 3},
         if road_type data = 6 then ''Urban area with high traffic''
         else ''Rural road with potential hazards'')]"

text \<open>The two rule sets of the recommendation engine and its fallback.\<close>

definition high_risk_rules :: "request \<Rightarrow> string list \<Rightarrow> (bool \<times> string) list" where
  "high_risk_rules data factors =
     [(speed_limit data > 40, ''Consider reducing speed limit in this area''),
      (junction_detail data \<noteq> ''Not at junction'',
         ''Install traffic monitoring cameras at the junction''),
      (time_of_day data \<in> {''Night'', ''Evening''}, ''Improve street lighting conditions''),
      (weather_conditions data \<noteq> ''Fine'',
         ''Install weather warning signs for '' @ weather_conditions data @ '' conditions''),
      (factors \<noteq> [], ''Increase police patrols in the area'')]"

definition not_high_risk_rules :: "request \<Rightarrow> string list \<Rightarrow> (bool \<times> string) list" where
  "not_high_risk_rules data factors =
     [(junction_detail data \<noteq> ''Not at junction'',
         ''Consider additional signage at the junction''),
      (weather_conditions data \<noteq> ''Fine'', ''Ensure regular road maintenance''),
      (time_of_day data \<in> {''Night'', ''Evening''}, ''Consider enhanced road markings''),
      (factors \<noteq> [], ''Monitor conditions and maintain current safety measures''),
      (factors = [], ''Continue regular maintenance and monitoring''),
      (road_type data = 1, ''Maintain residential area safety features''),
      (speed_limit data \<le> 30, ''Current speed restrictions are appropriate'')]"

definition recommend_rules :: "request \<Rightarrow> string \<Rightarrow> string list \<Rightarrow> string list" where
  "recommend_rules data level factors =
     (let rs = fired (if level = ''High Risk'' then high_risk_rules data factors
                      else not_high_risk_rules data factors)
      in if rs = [] then [''No specific recommendations needed at this time''] else rs)"

text \<open>
  The four stages of the calibrator over the reals: bias correction, remap, additive
  correction, clamp. It is the closed form of \<open>adjust_probability\<close> on \<open>[0, 1]\<close> from
  which the bounds below are derived.
\<close>

definition calibrate_spec :: "real \<Rightarrow> real" where
  "calibrate_spec raw =
     (let adjusted = (raw * 0.5) / (raw * 0.5 + (1 - raw));
          remapped =
            (if adjusted > 0.5 then 0.2 + (((adjusted - 0.5) * 2) ^ 5) * 0.7
             else 0.2 * ((adjusted * 2) powr 0.33));
          base_diff = \<bar>raw - 0.5\<bar>;
          corrected =
            (if remapped < 0.4 then remapped + base_diff * 0.02 else remapped + base_diff * 0.05)
      in max 0 (min 1 corrected))"

section \<open>Example requests\<close>

text \<open>The two scenarios of the specification: every trigger fires, and none does.\<close>

definition ex_urban_night :: request where
  "ex_urban_night =
     \<lparr>road_type = 6, weather_conditions = ''Rain'', speed_limit = 50, time_of_day = ''Night'',
      junction_detail = ''Crossroads''\<rparr>"

definition ex_residential :: request where
  "ex_residential =
     \<lparr>road_type = 1, weather_conditions = ''Fine'', speed_limit = 20, time_of_day = ''Morning'',
      junction_detail = ''Not at junction''\<rparr>"

text \<open>A schema with the normalized speed limit and the four one-hot groups.\<close>

definition ex_schema :: "string list" where
  "ex_schema =
     [''speed_limit'',
      ''road_type_1'', ''road_type_2'', ''road_type_3'', ''road_type_6'',
      ''weather_conditions_1'', ''weather_conditions_2'', ''weather_conditions_3'',
      ''weather_conditions_4'',
      ''light_conditions_1'', ''light_conditions_4'',
      ''junction_detail_0'', ''junction_detail_1'', ''junction_detail_2'', ''junction_detail_3'']"

section \<open>Validation\<close>

lemma validate_field_append:
  "validate_field data fr errors = errors @ field_errors data fr"
  by (cases "data (fst fr)") (simp_all add: validate_field_def field_errors_def Let_def)

lemma fold_validate_field:
  "fold (validate_field data) vs errors = errors @ concat (map (field_errors data) vs)"
  by (induction vs arbitrary: errors) (simp_all add: validate_field_append)

lemma validate_input_concat:
  "validate_input data = concat (map (field_errors data) INPUT_VALIDATORS)"
  by (simp add: validate_input_def fold_validate_field)

lemma field_errors_empty: "required (snd fr) \<Longrightarrow> (field_errors data fr = []) = field_ok data fr"
  by (cases "data (fst fr)") (simp_all add: field_errors_def field_ok_def)

lemma all_required: "fr \<in> set INPUT_VALIDATORS \<Longrightarrow> required (snd fr)"
  by (auto simp: INPUT_VALIDATORS_def)

lemma distinct_fields: "distinct (map fst INPUT_VALIDATORS)"
  by (simp add: INPUT_VALIDATORS_def)

lemma field_errors_keys: "set (map fst (field_errors data fr)) \<subseteq> {fst fr}"
  by (cases "data (fst fr)") (auto simp: field_errors_def)

text \<open>With distinct fields, the entry of a field in the collected errors is its own.\<close>

lemma map_of_concat_field_errors:
  "distinct (map fst vs) \<Longrightarrow> fr \<in> set vs \<Longrightarrow>
   map_of (concat (map (field_errors data) vs)) (fst fr) = map_of (field_errors data fr) (fst fr)"
proof (induction vs)
  case Nil
  then show ?case by simp
next
  case (Cons a vs)
  show ?case
  proof (cases "fr = a")
    case True
    have "fst a \<notin> fst ` set (concat (map (field_errors data) vs))"
    proof
      assume "fst a \<in> fst ` set (concat (map (field_errors data) vs))"
      then obtain b where b: "b \<in> set vs" "fst a \<in> fst ` set (field_errors data b)" by auto
      with field_errors_keys[of data b] have "fst a = fst b" by auto
      with b(1) Cons.prems(1) show False by (auto simp: image_iff)
    qed
    then have "map_of (concat (map (field_errors data) vs)) (fst a) = None"
      by (simp add: map_of_eq_None_iff)
    then show ?thesis using True by (simp add: map_add_def split: option.splits)
  next
    case False
    with Cons.prems have in_vs: "fr \<in> set vs" and ne: "fst fr \<noteq> fst a"
      by (auto simp: image_iff)
    have "fst fr \<notin> fst ` set (field_errors data a)"
      using field_errors_keys[of data a] ne by auto
    then have "map_of (field_errors data a) (fst fr) = None"
      by (simp add: map_of_eq_None_iff)
    then show ?thesis using Cons.IH in_vs Cons.prems(1) by (simp add: map_add_def)
  qed
qed

text \<open>A request within the enumerated sets passes validation.\<close>

lemma valid_request_validates:
  "valid_request data \<Longrightarrow> validate_input (request_dict data) = []"
  by (auto simp: valid_request_def validate_input_def validate_field_def INPUT_VALIDATORS_def
      request_dict_def py_in_def py_eq_def)

text \<open>
  C9, as amended. For every request mapping, \<open>validate_input\<close> collects the errors of all
  five validators in one pass, in the order of \<open>INPUT_VALIDATORS\<close>. The entry of a field is
  the fixed message when the field is absent, the generated message listing the options
  when its value is not found among the options by Python's \<open>in\<close> (equality \<open>==\<close>, under
  which \<open>True\<close> is 1 and \<open>1.0\<close> is 1), and absent otherwise. The result is empty exactly when
  every field is present with a value that \<open>in\<close> finds among its options.
\<close>

theorem validate_input_fields:
  "validate_input data = concat (map (field_errors data) INPUT_VALIDATORS) \<and>
   (\<forall>fr \<in> set INPUT_VALIDATORS.
      map_of (validate_input data) (fst fr) =
        (case data (fst fr) of
           None \<Rightarrow> Some (error (snd fr))
         | Some v \<Rightarrow> if py_in v (options (snd fr)) then None
                     else Some (invalid_value_msg (fst fr) (options (snd fr))))) \<and>
   (validate_input data = []) = (\<forall>fr \<in> set INPUT_VALIDATORS. field_ok data fr)"
proof (intro conjI ballI)
  show c: "validate_input data = concat (map (field_errors data) INPUT_VALIDATORS)"
    by (rule validate_input_concat)
  show "(validate_input data = []) = (\<forall>fr \<in> set INPUT_VALIDATORS. field_ok data fr)"
    by (simp add: c) (metis all_required field_errors_empty)
  fix fr assume fr: "fr \<in> set INPUT_VALIDATORS"
  have "map_of (validate_input data) (fst fr) = map_of (field_errors data fr) (fst fr)"
    unfolding c by (rule map_of_concat_field_errors[OF distinct_fields fr])
  also have "\<dots> = (case data (fst fr) of
           None \<Rightarrow> Some (error (snd fr))
         | Some v \<Rightarrow> if py_in v (options (snd fr)) then None
                     else Some (invalid_value_msg (fst fr) (options (snd fr))))"
    using all_required[OF fr] by (simp add: field_errors_def split: option.splits)
  finally show "map_of (validate_input data) (fst fr) =
        (case data (fst fr) of
           None \<Rightarrow> Some (error (snd fr))
         | Some v \<Rightarrow> if py_in v (options (snd fr)) then None
                     else Some (invalid_value_msg (fst fr) (options (snd fr))))" .
qed

text \<open>
  A request within the enumerated sets has no errors; a request holding only an
  out-of-range speed limit has the generated message for it and the fixed message for the
  absent road type.
\<close>

theorem validate_input_fields_witness:
  "validate_input (request_dict ex_urban_night) = [] \<and>
   map_of (validate_input (Map.empty(''speed_limit'' \<mapsto> PInt 25))) ''speed_limit'' =
     Some ''Invalid value for speed_limit. Options are: [20, 30, 40, 50, 60, 70]'' \<and>
   map_of (validate_input (Map.empty(''speed_limit'' \<mapsto> PInt 25))) ''road_type'' =
     Some ''Please select a valid road type (1: Residential, 2: Suburban, 3: Rural, 6: Urban)''"
  using validate_input_fields[of "request_dict ex_urban_night"]
    validate_input_fields[of "Map.empty(''speed_limit'' \<mapsto> PInt 25)"]
  by (simp add: INPUT_VALIDATORS_def field_ok_def field_errors_def request_dict_def
      ex_urban_night_def py_in_def py_eq_def invalid_value_msg_def repr_list_def show_int_def
      show_nat.simps digit_char_def)

text \<open>
  The claim as stated fails: the JSON value \<open>true\<close> is none of the options 1, 2, 3, 6 of
  \<open>road_type\<close>, yet a request that gives it as the road type has no error at all.
\<close>

theorem validate_input_bool_counterexample:
  "PBool True \<notin> set (options (the (map_of INPUT_VALIDATORS ''road_type''))) \<and>
   ((request_dict ex_urban_night)(''road_type'' \<mapsto> PBool True)) ''road_type'' = Some (PBool True) \<and>
   validate_input ((request_dict ex_urban_night)(''road_type'' \<mapsto> PBool True)) = []"
  by (simp add: INPUT_VALIDATORS_def validate_input_def validate_field_def request_dict_def
      ex_urban_night_def py_in_def py_eq_def)

section \<open>Base risk score and classification\<close>

lemma base_risk_score_count:
  "base_risk_score data = 0.1 * real (count_true (base_triggers data))"
  by (simp add: base_risk_score_def base_triggers_def count_true_def Let_def)

lemma count_true_base_triggers_le: "count_true (base_triggers data) \<le> 5"
  by (simp add: base_triggers_def count_true_def)

text \<open>
  C3. For every request, the base risk score is 0.1 times the number of the five triggers
  that hold (speed limit above 40, time Night or Evening, weather other than Fine, a
  junction, road type 6 or 3); that number is at most 5, so the score is a multiple of
  0.1 in \<open>[0, 0.5]\<close>.
\<close>

theorem base_risk_score_multiple:
  "base_risk_score data = 0.1 * real (count_true (base_triggers data)) \<and>
   count_true (base_triggers data) \<le> 5 \<and>
   0 \<le> base_risk_score data \<and> base_risk_score data \<le> 0.5"
proof -
  have c: "count_true (base_triggers data) \<le> 5" by (rule count_true_base_triggers_le)
  then have "real (count_true (base_triggers data)) \<le> 5" by simp
  then show ?thesis using c by (simp add: base_risk_score_count)
qed

text \<open>
  C5. The risk level is High Risk exactly when the final probability is strictly greater
  than the threshold 0.70; a final probability of exactly 0.70 is Not High Risk.
\<close>

theorem risk_level_strict_threshold:
  "RISK_THRESHOLDS_high = 0.70 \<and>
   (risk_level_of p = ''High Risk'') = (p > 0.70) \<and>
   (risk_level_of p = ''Not High Risk'') = (p \<le> 0.70) \<and>
   risk_level_of 0.70 = ''Not High Risk''"
  by (simp add: risk_level_of_def RISK_THRESHOLDS_high_def not_less)

section \<open>Risk factors and recommendations\<close>

text \<open>
  C7. For every request, the risk factors are the effects of the five rules that hold, in
  the order visibility, weather, high-speed zone, junction, road type; the weather and
  junction factors name the condition and the junction type; the road-type rule fires only
  for road types 6 and 3, so with road type 1 or 2 the list is what the first four rules
  give.
\<close>

theorem calculate_risk_factors_rules:
  "calculate_risk_factors data = fired (risk_rules data) \<and>
   (road_type data \<in> {1, 2} \<longrightarrow>
      calculate_risk_factors data = fired (take 4 (risk_rules data)))"
  by (simp add: calculate_risk_factors_def fired_def risk_rules_def road_type_desc_def Let_def)

text \<open>
  The two scenarios: all five factors in order for the urban night request, none for the
  residential one, whose road type 1 has a description that is not used.
\<close>

theorem calculate_risk_factors_rules_witness:
  "road_type ex_residential \<in> {1, 2} \<and>
   calculate_risk_factors ex_residential = [] \<and>
   road_type_desc (road_type ex_residential) = Some ''Residential area with lower traffic'' \<and>
   calculate_risk_factors ex_urban_night =
     [''Limited visibility during night/evening hours'',
      ''Adverse weather conditions (Rain)'',
      ''High speed zone'',
      ''Complex junction type (Crossroads)'',
      ''Urban area with high traffic'']"
  using calculate_risk_factors_rules[of ex_residential]
    calculate_risk_factors_rules[of ex_urban_night]
  by (simp add: fired_def risk_rules_def ex_residential_def ex_urban_night_def
      road_type_desc_def)

lemma if_append_one: "(if c then xs @ [s] else xs) = xs @ fired [(c, s)]"
  by (simp add: fired_def)

lemma if_append_either:
  "(if c then xs @ [s] else xs @ [t]) = xs @ fired [(c, s), (\<not> c, t)]"
  by (simp add: fired_def)

lemma fired_append: "fired rs @ fired rs' = fired (rs @ rs')"
  by (simp add: fired_def)

lemma fired_subset: "set (fired rules) \<subseteq> snd ` set rules"
  by (auto simp: fired_def)

lemma if_not_Nil: "(if xs \<noteq> [] then xs else ys) = (if xs = [] then ys else xs)"
  by simp

lemma generate_recommendations_eq:
  "generate_recommendations data level factors = recommend_rules data level factors"
proof (cases "level = ''High Risk''")
  case True
  show ?thesis
    unfolding generate_recommendations_def recommend_rules_def high_risk_rules_def
    by (simp only: True Let_def if_True if_append_one if_append_either append_Nil
      fired_append append_Cons length_greater_0_conv list.set not_not simp_thms if_not_Nil)
next
  case False
  show ?thesis
    unfolding generate_recommendations_def recommend_rules_def not_high_risk_rules_def
    by (simp only: False Let_def if_False if_append_one if_append_either append_Nil
      fired_append append_Cons length_greater_0_conv list.set not_not simp_thms if_not_Nil)
qed

lemma fallback_not_high:
  "''No specific recommendations needed at this time'' \<notin> snd ` set (high_risk_rules data factors)"
  by (simp add: high_risk_rules_def)

lemma fallback_not_low:
  "''No specific recommendations needed at this time'' \<notin> snd ` set (not_high_risk_rules data factors)"
  by (simp add: not_high_risk_rules_def)

text \<open>
  C8. For every request, risk level and list of risk factors, the recommendations are the
  effects of all the rules of the level's rule set that hold, in the order of the rule
  set, or the single fallback message when none holds; the list is never empty, and it is
  the fallback alone exactly when no rule fires.
\<close>

theorem generate_recommendations_rules:
  "generate_recommendations data level factors = recommend_rules data level factors \<and>
   generate_recommendations data level factors \<noteq> [] \<and>
   (generate_recommendations data level factors =
      [''No specific recommendations needed at this time'']) =
   (fired (if level = ''High Risk'' then high_risk_rules data factors
           else not_high_risk_rules data factors) = [])"
proof -
  define rs where "rs = fired (if level = ''High Risk'' then high_risk_rules data factors
           else not_high_risk_rules data factors)"
  have g: "generate_recommendations data level factors =
      (if rs = [] then [''No specific recommendations needed at this time''] else rs)"
    unfolding generate_recommendations_eq recommend_rules_def rs_def Let_def by (rule refl)
  have "''No specific recommendations needed at this time'' \<notin> set rs"
    unfolding rs_def
    using fired_subset[of "high_risk_rules data factors"] fallback_not_high[of data factors]
      fired_subset[of "not_high_risk_rules data factors"] fallback_not_low[of data factors]
    by (cases "level = ''High Risk''") auto
  then have n: "rs \<noteq> [''No specific recommendations needed at this time'']" by auto
  have e: "recommend_rules data level factors = generate_recommendations data level factors"
    by (rule generate_recommendations_eq[symmetric])
  show ?thesis
    unfolding rs_def[symmetric] e unfolding g using n by (cases "rs = []") simp_all
qed

section \<open>Properties of the feature encoder\<close>

lemma fold_init_apply:
  "fold (\<lambda>feature df. df(feature \<mapsto> v)) fn m k = (if k \<in> set fn then Some v else m k)"
  by (induction fn arbitrary: m) auto

lemma select_cols_Some:
  "(\<And>f. f \<in> set fn \<Longrightarrow> df f \<noteq> None) \<Longrightarrow>
   select_cols df fn = Some (map (\<lambda>f. (f, the (df f))) fn)"
proof (induction fn)
  case Nil
  show ?case by simp
next
  case (Cons a fn)
  from Cons.prems[of a] obtain v where v: "df a = Some v" by auto
  have "select_cols df fn = Some (map (\<lambda>f. (f, the (df f))) fn)"
    by (rule Cons.IH) (simp add: Cons.prems)
  then show ?case by (simp add: v)
qed

lemma upd_keeps_Some: "m f \<noteq> None \<Longrightarrow> (m(k \<mapsto> v)) f \<noteq> None"
  by simp

lemma request_dict_simps:
  "request_dict d ''road_type'' = Some (PInt (road_type d))"
  "request_dict d ''weather_conditions'' = Some (PStr (weather_conditions d))"
  "request_dict d ''speed_limit'' = Some (PInt (speed_limit d))"
  "request_dict d ''time_of_day'' = Some (PStr (time_of_day d))"
  "request_dict d ''junction_detail'' = Some (PStr (junction_detail d))"
  by (simp_all add: request_dict_def)

text \<open>
  The encoder returns for every request and every schema. Its result lists the schema's
  names in order, each with the value of a frame \<open>F\<close>. Two facts about that frame: a
  \<open>speed_limit\<close> column of the schema holds 0.0, since the loop that initializes the
  schema's columns has replaced the request's speed limit before it is divided by 70; and
  \<open>high_speed\<close> with its two products holds 0 for every speed limit up to 2800, since it
  compares the normalized column with 40.
\<close>

lemma preprocess_input_frame:
  "\<exists>F. preprocess_input fn d = Some (map (\<lambda>f. (f, the (F f))) fn) \<and>
       (''speed_limit'' \<in> set fn \<longrightarrow> F ''speed_limit'' = Some (PFloat 0)) \<and>
       (speed_limit d \<le> 2800 \<longrightarrow>
          F ''high_speed'' = Some (PInt 0) \<and> F ''night_speed_risk'' = Some (PInt 0) \<and>
          F ''weather_speed_risk'' = Some (PInt 0))"
proof -
  define df0 where "df0 = fold (\<lambda>feature df. df(feature \<mapsto> PInt 0)) fn (request_dict d)"
  define s where "s = (if ''speed_limit'' \<in> set fn then 0 else speed_limit d)"
  obtain i where rt: "df0 ''road_type'' = Some (PInt i)"
    by (cases "''road_type'' \<in> set fn") (simp_all add: df0_def fold_init_apply request_dict_simps)
  have sl: "df0 ''speed_limit'' = Some (PInt s)"
    by (simp add: df0_def s_def fold_init_apply request_dict_simps)
  obtain w where w: "df0 ''weather_conditions'' = Some w"
    by (cases "''weather_conditions'' \<in> set fn")
      (simp_all add: df0_def fold_init_apply request_dict_simps)
  obtain t where t: "df0 ''time_of_day'' = Some t"
    by (cases "''time_of_day'' \<in> set fn") (simp_all add: df0_def fold_init_apply request_dict_simps)
  obtain j where j: "df0 ''junction_detail'' = Some j"
    by (cases "''junction_detail'' \<in> set fn")
      (simp_all add: df0_def fold_init_apply request_dict_simps)
  have all: "\<And>f. f \<in> set fn \<Longrightarrow> df0 f = Some (PInt 0)"
    by (simp add: df0_def fold_init_apply)
  have s0: "''speed_limit'' \<in> set fn \<Longrightarrow> s = 0" by (simp add: s_def)
  have s1: "speed_limit d \<le> 2800 \<Longrightarrow> \<not> 2800 < s" by (simp add: s_def)
  show ?thesis
    unfolding preprocess_input_def Let_def df0_def[symmetric]
    apply (simp add: one_hot_def assign_def rt sl w t j astype_float_def py_gt_def
        split del: if_split)
    apply (rule exI)
    apply (rule conjI)
     apply (rule select_cols_Some)
     apply (intro upd_keeps_Some)
     apply (simp add: all)
    apply (simp add: s0 s1)
    done
qed

lemma preprocess_input_total:
  "\<exists>out. preprocess_input fn d = Some out \<and> map fst out = fn"
proof -
  from preprocess_input_frame[of fn d] obtain F
    where "preprocess_input fn d = Some (map (\<lambda>f. (f, the (F f))) fn)" by blast
  then show ?thesis by (simp add: comp_def)
qed

lemma preprocess_input_high_speed_zero:
  assumes "preprocess_input fn d = Some out" and "speed_limit d \<le> 2800"
    and "(k, v) \<in> set out" and "k \<in> {''high_speed'', ''night_speed_risk'', ''weather_speed_risk''}"
  shows "v = PInt 0"
proof -
  from preprocess_input_frame[of fn d] assms(1,2) obtain F
    where o: "out = map (\<lambda>f. (f, the (F f))) fn"
      and F: "F ''high_speed'' = Some (PInt 0)" "F ''night_speed_risk'' = Some (PInt 0)"
        "F ''weather_speed_risk'' = Some (PInt 0)"
    by auto
  from assms(3) have "v = the (F k)" unfolding o by auto
  with assms(4) F show ?thesis by auto
qed

lemma preprocess_input_speed_limit_zero:
  assumes "preprocess_input fn d = Some out" and "(''speed_limit'', v) \<in> set out"
  shows "v = PFloat 0"
proof -
  from preprocess_input_frame[of fn d] assms(1) obtain F
    where o: "out = map (\<lambda>f. (f, the (F f))) fn"
      and F: "''speed_limit'' \<in> set fn \<longrightarrow> F ''speed_limit'' = Some (PFloat 0)"
    by auto
  from assms(2) have "''speed_limit'' \<in> set fn" "v = the (F ''speed_limit'')"
    unfolding o by auto
  with F show ?thesis by simp
qed

lemmas encoder_eval = preprocess_input_def request_dict_def show_int_def show_nat.simps
  digit_char_def dict_get_def weather_map_def time_to_light_def junction_map_def
  astype_float_def py_gt_def py_eq_def py_in_def assign_def one_hot_def

text \<open>
  C1. The urban night request has a raw speed limit of 50, above 40, and both \<open>is_night\<close>
  and \<open>weather_risk\<close> are 1; the encoder gives \<open>high_speed\<close>, \<open>night_speed_risk\<close> and
  \<open>weather_speed_risk\<close> the value 0, not 1.
\<close>

theorem preprocess_input_high_speed_normalized:
  "valid_request ex_urban_night \<and> speed_limit ex_urban_night > 40 \<and>
   preprocess_input
     [''is_night'', ''weather_risk'', ''high_speed'', ''night_speed_risk'', ''weather_speed_risk'']
     ex_urban_night =
   Some [(''is_night'', PInt 1), (''weather_risk'', PInt 1), (''high_speed'', PInt 0),
         (''night_speed_risk'', PInt 0), (''weather_speed_risk'', PInt 0)]"
  by (simp add: encoder_eval ex_urban_night_def valid_request_def)

text \<open>
  C6. For the urban night request and a schema with \<open>speed_limit\<close> and the four one-hot
  groups, the encoder lists the schema's names in order and sets one column of each group,
  but the \<open>speed_limit\<close> feature is 0.0, outside \<open>[20/70, 70/70]\<close>, where the claim has
  50/70.
\<close>

theorem preprocess_input_speed_limit_zeroed:
  "valid_request ex_urban_night \<and>
   preprocess_input ex_schema ex_urban_night =
   Some [(''speed_limit'', PFloat 0),
         (''road_type_1'', PInt 0), (''road_type_2'', PInt 0), (''road_type_3'', PInt 0),
         (''road_type_6'', PInt 1),
         (''weather_conditions_1'', PInt 0), (''weather_conditions_2'', PInt 1),
         (''weather_conditions_3'', PInt 0), (''weather_conditions_4'', PInt 0),
         (''light_conditions_1'', PInt 0), (''light_conditions_4'', PInt 1),
         (''junction_detail_0'', PInt 0), (''junction_detail_1'', PInt 0),
         (''junction_detail_2'', PInt 1), (''junction_detail_3'', PInt 0)]"
  by (simp add: encoder_eval ex_urban_night_def ex_schema_def valid_request_def)

section \<open>Calibration\<close>

lemma denom_pos: "0 \<le> r \<Longrightarrow> r \<le> 1 \<Longrightarrow> (r::real) * 0.5 + (1 - r) > 0"
  by simp

lemma adjusted_range:
  fixes r :: real
  assumes "0 \<le> r" "r \<le> 1"
  shows "0 \<le> (r * 0.5) / (r * 0.5 + (1 - r))" "(r * 0.5) / (r * 0.5 + (1 - r)) \<le> 1"
proof -
  have d: "r * 0.5 + (1 - r) > 0" using assms by simp
  show "0 \<le> (r * 0.5) / (r * 0.5 + (1 - r))" using assms d by simp
  show "(r * 0.5) / (r * 0.5 + (1 - r)) \<le> 1" using assms d by (simp add: field_simps)
qed

lemma clamp_commute: "min (max (x::real) 0) 1 = max 0 (min 1 x)"
  by (simp add: max_def min_def)

text \<open>On \<open>[0, 1]\<close> neither guard of \<open>adjust_probability\<close> is met, and the rest is the formula.\<close>

lemma adjust_probability_calibrate:
  assumes "0 \<le> r" "r \<le> 1"
  shows "adjust_probability r = Some (calibrate_spec r)"
proof -
  have d: "(r * 0.5 + (1 - r) = 0) = False" using denom_pos[OF assms] by simp
  have a: "0 \<le> (r * 0.5) / (r * 0.5 + (1 - r))" by (rule adjusted_range[OF assms])
  have "\<not> ((r * 0.5) / (r * 0.5 + (1 - r)) * 2 < 0)"
    using a by (simp only: not_less zero_le_mult_iff) simp
  then have n: "((r * 0.5) / (r * 0.5 + (1 - r)) \<le> 0.5 \<and>
                (r * 0.5) / (r * 0.5 + (1 - r)) * 2 < 0) = False"
    by blast
  show ?thesis
    unfolding adjust_probability_def calibrate_spec_def Let_def
    by (simp only: d n if_False clamp_commute)
qed

lemma calibrate_spec_range: "0 \<le> calibrate_spec r \<and> calibrate_spec r \<le> 1"
  unfolding calibrate_spec_def Let_def by simp

text \<open>The remap stage stays below 0.9 on its upper branch and below 0.2 on its lower one.\<close>

lemma remap_high:
  fixes a :: real
  assumes "a \<le> 1" "a > 0.5"
  shows "0.2 + (((a - 0.5) * 2) ^ 5) * 0.7 \<le> 0.9"
proof -
  have "0 \<le> (a - 0.5) * 2" "(a - 0.5) * 2 \<le> 1" using assms by simp_all
  then have "((a - 0.5) * 2) ^ 5 \<le> 1" by (rule power_le_one)
  then show ?thesis by simp
qed

lemma remap_low:
  fixes a :: real
  assumes "0 \<le> a" "a \<le> 0.5"
  shows "0.2 * ((a * 2) powr 0.33) \<le> 0.2"
proof -
  have "0 \<le> a * 2" "a * 2 \<le> 1" using assms by simp_all
  then have "(a * 2) powr 0.33 \<le> 1" by (simp add: powr_le1)
  then show ?thesis by simp
qed

lemma calibrate_spec_upper:
  assumes "0 \<le> r" "r \<le> 1"
  shows "calibrate_spec r \<le> 0.925"
proof -
  define a where "a = (r * 0.5) / (r * 0.5 + (1 - r))"
  define m where "m = (if a > 0.5 then 0.2 + (((a - 0.5) * 2) ^ 5) * 0.7
                       else 0.2 * ((a * 2) powr 0.33))"
  define c where "c = (if m < 0.4 then m + \<bar>r - 0.5\<bar> * 0.02 else m + \<bar>r - 0.5\<bar> * 0.05)"
  have a: "0 \<le> a" "a \<le> 1" unfolding a_def by (rule adjusted_range[OF assms])+
  have m: "m \<le> 0.9"
  proof (cases "a > 0.5")
    case True
    then show ?thesis unfolding m_def using remap_high[OF a(2)] by simp
  next
    case False
    then have "a \<le> 0.5" by simp
    then show ?thesis unfolding m_def using remap_low[OF a(1)] False by simp
  qed
  have b: "\<bar>r - 0.5\<bar> \<le> 0.5" using assms by linarith
  have c: "c \<le> 0.925" unfolding c_def using m b by (simp split: if_splits)
  have "calibrate_spec r = max 0 (min 1 c)"
    unfolding calibrate_spec_def Let_def c_def m_def a_def by (rule refl)
  then show ?thesis using c by simp
qed

lemma calibrate_spec_one: "calibrate_spec 1 = 0.925"
  by (simp add: calibrate_spec_def)

lemma calibrate_spec_zero: "calibrate_spec 0 = 0.01"
  by (simp add: calibrate_spec_def)

text \<open>
  When the encoder and the calibration return, \<open>predict\<close> classifies the blend of the
  calibrated probability and the base risk score.
\<close>

lemma predict_Some:
  assumes "preprocess_input feature_names data = Some x"
    and "adjust_probability (predict_proba x) = Some p"
  shows "predict feature_names predict_proba data =
     Some \<lparr>risk_level = risk_level_of (final_probability p (base_risk_score data)),
           probability = final_probability p (base_risk_score data),
           raw_probability = predict_proba x,
           risk_factors = calculate_risk_factors data,
           recommendations =
             generate_recommendations data
               (risk_level_of (final_probability p (base_risk_score data)))
               (calculate_risk_factors data)\<rparr>"
  by (simp add: predict_def assms Let_def)

lemma base_risk_score_urban_night: "base_risk_score ex_urban_night = 0.5"
  by (simp add: base_risk_score_def ex_urban_night_def)

lemma base_risk_score_residential: "base_risk_score ex_residential = 0"
  by (simp add: base_risk_score_def ex_residential_def)

text \<open>
  C4. For every raw probability in \<open>[0, 1]\<close>, the ends included, \<open>adjust_probability\<close>
  returns a value in \<open>[0, 1]\<close>.
\<close>

theorem adjust_probability_unit_interval:
  assumes "0 \<le> r" "r \<le> 1"
  shows "\<exists>p. adjust_probability r = Some p \<and> 0 \<le> p \<and> p \<le> 1"
  using adjust_probability_calibrate[OF assms] calibrate_spec_range[of r] by simp

text \<open>The two ends of the interval.\<close>

theorem adjust_probability_unit_interval_witness:
  "adjust_probability 0 = Some 0.01 \<and> adjust_probability 1 = Some 0.925 \<and>
   (\<exists>p. adjust_probability 0 = Some p \<and> 0 \<le> p \<and> p \<le> 1) \<and>
   (\<exists>p. adjust_probability 1 = Some p \<and> 0 \<le> p \<and> p \<le> 1)"
proof -
  have z: "adjust_probability 0 = Some 0.01"
    using adjust_probability_calibrate[of 0] by (simp add: calibrate_spec_zero)
  have o: "adjust_probability 1 = Some 0.925"
    using adjust_probability_calibrate[of 1] by (simp add: calibrate_spec_one)
  show ?thesis
    using z o adjust_probability_unit_interval[of 0] adjust_probability_unit_interval[of 1]
    by simp
qed

text \<open>
  C10. For every raw probability in \<open>[0, 1]\<close>, \<open>adjust_probability\<close> returns at most
  0.925, so the final probability is at most 0.6475 plus 0.3 times the base risk score;
  the level is High Risk only when the base risk score is at least 0.2, that is when at
  least two of the five triggers hold, and with a base risk score of 0 the level is Not
  High Risk.
\<close>

theorem high_risk_needs_two_triggers:
  assumes "0 \<le> r" "r \<le> 1"
  shows "\<exists>p. adjust_probability r = Some p \<and> p \<le> 0.925 \<and>
     final_probability p (base_risk_score data) \<le> 0.6475 + 0.3 * base_risk_score data \<and>
     (risk_level_of (final_probability p (base_risk_score data)) = ''High Risk'' \<longrightarrow>
        0.2 \<le> base_risk_score data \<and> 2 \<le> count_true (base_triggers data)) \<and>
     (base_risk_score data = 0 \<longrightarrow>
        risk_level_of (final_probability p (base_risk_score data)) = ''Not High Risk'')"
proof -
  define p where "p = calibrate_spec r"
  define k where "k = count_true (base_triggers data)"
  have a: "adjust_probability r = Some p"
    unfolding p_def by (rule adjust_probability_calibrate[OF assms])
  have u: "p \<le> 0.925" unfolding p_def by (rule calibrate_spec_upper[OF assms])
  have b: "base_risk_score data = 0.1 * real k"
    unfolding k_def by (rule base_risk_score_count)
  have f: "final_probability p (base_risk_score data) \<le> 0.6475 + 0.3 * base_risk_score data"
    using u by (simp add: final_probability_def)
  have h: "0.2 \<le> base_risk_score data \<and> 2 \<le> k"
    if "risk_level_of (final_probability p (base_risk_score data)) = ''High Risk''"
  proof -
    from that have "final_probability p (base_risk_score data) > 0.7"
      by (simp add: risk_level_of_def RISK_THRESHOLDS_high_def split: if_splits)
    with f have "0.3 * base_risk_score data > 0.0525" by simp
    then have "real k > 1" unfolding b by simp
    then have "2 \<le> k" by simp
    then have "2 \<le> real k" by simp
    then show ?thesis using \<open>2 \<le> k\<close> unfolding b by simp
  qed
  have z: "risk_level_of (final_probability p (base_risk_score data)) = ''Not High Risk''"
    if "base_risk_score data = 0"
    using f that by (simp add: risk_level_of_def RISK_THRESHOLDS_high_def)
  show ?thesis
    using a u f h z unfolding k_def by blast
qed

text \<open>
  With the largest calibrated value, the urban night request is High Risk and the
  residential request, where no trigger holds, is not.
\<close>

theorem high_risk_needs_two_triggers_witness:
  "adjust_probability 1 = Some 0.925 \<and>
   risk_level_of (final_probability 0.925 (base_risk_score ex_urban_night)) = ''High Risk'' \<and>
   0.2 \<le> base_risk_score ex_urban_night \<and> 2 \<le> count_true (base_triggers ex_urban_night) \<and>
   base_risk_score ex_residential = 0 \<and>
   risk_level_of (final_probability 0.925 (base_risk_score ex_residential)) = ''Not High Risk''"
proof -
  have o: "adjust_probability 1 = Some 0.925"
    using adjust_probability_calibrate[of 1] by (simp add: calibrate_spec_one)
  have hr: "risk_level_of (final_probability 0.925 (base_risk_score ex_urban_night)) = ''High Risk''"
    by (simp add: base_risk_score_urban_night final_probability_def risk_level_of_def
        RISK_THRESHOLDS_high_def)
  have z: "base_risk_score ex_residential = 0" by (rule base_risk_score_residential)
  have "(0::real) \<le> 1" "(1::real) \<le> 1" by simp_all
  from high_risk_needs_two_triggers[OF this, of ex_urban_night]
  obtain p where p: "adjust_probability 1 = Some p"
    and h: "risk_level_of (final_probability p (base_risk_score ex_urban_night)) = ''High Risk'' \<longrightarrow>
        0.2 \<le> base_risk_score ex_urban_night \<and> 2 \<le> count_true (base_triggers ex_urban_night)"
    by blast
  from p o have "p = 0.925" by (simp only: option.inject)
  with h hr have two:
    "0.2 \<le> base_risk_score ex_urban_night \<and> 2 \<le> count_true (base_triggers ex_urban_night)"
    by blast
  have "(0::real) \<le> 1" "(1::real) \<le> 1" by simp_all
  from high_risk_needs_two_triggers[OF this, of ex_residential]
  obtain q where q: "adjust_probability 1 = Some q"
    and l: "base_risk_score ex_residential = 0 \<longrightarrow>
        risk_level_of (final_probability q (base_risk_score ex_residential)) = ''Not High Risk''"
    by blast
  from q o have "q = 0.925" by (simp only: option.inject)
  with l z have lr:
    "risk_level_of (final_probability 0.925 (base_risk_score ex_residential)) = ''Not High Risk''"
    by blast
  show ?thesis using o hr two z lr by blast
qed

end
